theory Spec2Isabelle
  imports
    Complex_Main
    "HOL-Library.Sublist"
    "HOL-Library.List_Lexorder"
    "HOL-Library.Product_Lexorder"
begin

section \<open>Python strings\<close>

text \<open>
  A Python \<open>str\<close> is a sequence of Unicode code points; it is modelled as a list of
  natural numbers. \<open>ascii\<close> writes an ASCII literal of the source as such a list.
  Comparison of strings (\<open><\<close> in \<open>list.sort\<close>) is lexicographic on code points,
  which is the order of \<^theory_text>\<open>List_Lexorder\<close>.
\<close>

type_synonym codepoint = nat
type_synonym pystr = "codepoint list"

definition ascii :: "string \<Rightarrow> pystr" where
  "ascii s = map of_char s"

text \<open>
  \<open>str.isspace\<close> of a single code point: the code points CPython treats as whitespace
  in \<open>str.strip()\<close> and \<open>str.split()\<close> without arguments.
\<close>

definition isspace :: "codepoint \<Rightarrow> bool" where
  "isspace c = (c \<in> set ([0x9, 0xA, 0xB, 0xC, 0xD, 0x1C, 0x1D, 0x1E, 0x1F, 0x20, 0x85, 0xA0,
      0x1680, 0x2000, 0x2001, 0x2002, 0x2003, 0x2004, 0x2005, 0x2006, 0x2007, 0x2008, 0x2009,
      0x200A, 0x2028, 0x2029, 0x202F, 0x205F, 0x3000]))"

text \<open>\<open>s.strip()\<close>: whitespace removed at both ends.\<close>

definition strip :: "pystr \<Rightarrow> pystr" where
  "strip s = rev (dropWhile isspace (rev (dropWhile isspace s)))"

text \<open>
  \<open>s.split()\<close>: the maximal runs of non-whitespace code points, in order; no empty
  string is ever produced. The accumulator \<open>w\<close> is the word being read.
\<close>

fun split_from :: "pystr \<Rightarrow> pystr \<Rightarrow> pystr list" where
  "split_from w [] = (if w = [] then [] else [w])"
| "split_from w (c # cs) =
     (if isspace c then (if w = [] then split_from [] cs else w # split_from [] cs)
      else split_from (w @ [c]) cs)"

definition split :: "pystr \<Rightarrow> pystr list" where
  "split s = split_from [] s"

text \<open>\<open>sep.join(parts)\<close>.\<close>

fun join :: "pystr \<Rightarrow> pystr list \<Rightarrow> pystr" where
  "join sep [] = []"
| "join sep [p] = p"
| "join sep (p # q # ps) = p @ sep @ join sep (q # ps)"


text \<open>
  \<open>d.get(key, default)\<close> on a record field that may be missing: \<open>None\<close> is the
  missing key.
\<close>

definition get_default :: "'a option \<Rightarrow> 'a \<Rightarrow> 'a" where
  "get_default field dflt = (case field of None \<Rightarrow> dflt | Some v \<Rightarrow> v)"

section \<open>Phase 0: the retailer classifier\<close>

text \<open>
  \<open>extract_retailer_id\<close>. \<open>str.lower()\<close> is the Unicode lower-casing of the Python
  runtime; its tables are not part of the repository, so the function takes it as the
  parameter \<open>lower\<close>. \<open>p in s\<close> on strings is contiguous containment, \<^const>\<open>sublist\<close>.
\<close>

definition extract_retailer_id :: "(pystr \<Rightarrow> pystr) \<Rightarrow> pystr \<Rightarrow> pystr" where
  "extract_retailer_id lower store_name =
     (if store_name = [] then ascii ''unknown''
      else let name_lower = strip (lower store_name) in
        if sublist (ascii ''migros'') name_lower then ascii ''migros''
        else if sublist (ascii ''coop'') name_lower then ascii ''coop''
        else if sublist (ascii ''denner'') name_lower then ascii ''denner''
        else if sublist (ascii ''aldi'') name_lower then ascii ''aldi''
        else if sublist (ascii ''aligro'') name_lower then ascii ''aligro''
        else ascii ''other'')"

text \<open>
  The classifier as the specification words it: the first pattern, in the fixed order,
  contained in the lower-cased and trimmed name, and \<open>other\<close> when there is none.
\<close>

definition retailer_patterns :: "pystr list" where
  "retailer_patterns =
     [ascii ''migros'', ascii ''coop'', ascii ''denner'', ascii ''aldi'', ascii ''aligro'']"

definition first_matching_pattern :: "(pystr \<Rightarrow> pystr) \<Rightarrow> pystr \<Rightarrow> pystr" where
  "first_matching_pattern lower store_name =
     (case find (\<lambda>p. sublist p (strip (lower store_name))) retailer_patterns of
        Some p \<Rightarrow> p
      | None \<Rightarrow> ascii ''other'')"

text \<open>
  A lower-casing for concrete inputs: ASCII capitals to small letters, every other code
  point unchanged. It agrees with \<open>str.lower()\<close> on ASCII strings.
\<close>

definition ascii_lower :: "pystr \<Rightarrow> pystr" where
  "ascii_lower s = map (\<lambda>c. if 65 \<le> c \<and> c \<le> 90 then c + 32 else c) s"

section \<open>Phase 1: the text normalizer\<close>










section \<open>Phase 2: geocode cache and coordinate lookup\<close>

text \<open>
  Python dictionaries keep insertion order; they are association lists with at most one
  pair per key. \<open>k in d\<close> and \<open>d[k]\<close> are \<^const>\<open>map_of\<close>; \<open>d[k] = v\<close> is
  \<open>dict_set\<close>, which keeps the place of a key that exists and appends a new one.
\<close>

type_synonym ('k, 'v) dict = "('k \<times> 'v) list"

fun dict_set :: "('k, 'v) dict \<Rightarrow> 'k \<Rightarrow> 'v \<Rightarrow> ('k, 'v) dict" where
  "dict_set [] k v = [(k, v)]"
| "dict_set ((k', v') # d) k v =
     (if k' = k then (k, v) # d else (k', v') # dict_set d k v)"

datatype error = FileNotFoundError | KeyError | OSError

text \<open>
  The data of the phase. A field read with \<open>.get\<close> may be missing (\<open>None\<close>). Floating
  point numbers are only copied and compared with \<open>0.0\<close>, never computed with; they
  are modelled as reals.
\<close>

record coordinates =
  latitude :: real
  longitude :: real

record cache_entry =
  ce_latitude :: "real option"
  ce_longitude :: "real option"
  ce_status :: "pystr option"
  ce_accuracy :: "pystr option"

type_synonym geocode_cache = "(pystr, cache_entry) dict"

record store =
  st_store_id :: "pystr option"
  st_name :: "pystr option"
  st_address :: "pystr option"
  st_location_text :: "pystr option"
  st_geo_point :: "coordinates option"
  st_retailer_id :: "pystr option"
  st_coordinates :: "coordinates option"

text \<open>
  The answer of the geocoding service to one request: the transport fails (any exception
  of \<open>urlopen\<close>, \<open>read\<close> or \<open>json.loads\<close>), or a JSON object arrives. In the
  object every key the code reads with \<open>[...]\<close> may be missing, which raises
  \<open>KeyError\<close>; \<open>results\<close> missing, null or empty is the empty list.
\<close>

record geo_location =
  lat :: "real option"
  lng :: "real option"

record geo_geometry =
  location :: "geo_location option"
  location_type :: "pystr option"

record geo_result =
  geometry :: "geo_geometry option"

record geo_data =
  status :: "pystr option"
  results :: "geo_result list"

datatype http_outcome = TransportFailure | Response geo_data

text \<open>
  The service is a function from the address and the key of a request to its outcome.
  Each request issued is appended to the request log, so that a lookup that leaves the
  log as it was has made no network call.
\<close>

type_synonym geocoder = "pystr \<Rightarrow> pystr \<Rightarrow> http_outcome"
type_synonym request_log = "(pystr \<times> pystr) list"

text \<open>
  The data of phase 3. A raw store-price record is read with \<open>.get\<close> only, so each
  of its fields may be missing. A product always has its \<open>product_id\<close> (the product
  map is built with \<open>p['product_id']\<close>); its other fields are read with \<open>.get\<close>.
  The value \<open>None\<close> of an output field is Python's \<open>None\<close>.
\<close>

record store_price =
  sp_store_id :: "pystr option"
  sp_product_id :: "pystr option"
  sp_price :: "real option"
  sp_currency :: "pystr option"
  sp_in_stock :: "bool option"
  sp_discount_active :: "bool option"

record product =
  pr_product_id :: pystr
  pr_name :: "pystr option"
  pr_image_url :: "pystr option"
  pr_category :: "pystr option"
  pr_product_type :: "pystr option"
  pr_keywords :: "pystr list option"
  pr_general_unit :: "pystr option"

record retailer_price =
  rp_doc_id :: pystr
  rp_retailer_id :: pystr
  rp_product_id :: pystr
  rp_price :: "real option"
  rp_currency :: pystr
  rp_in_stock :: bool
  rp_discount_active :: bool
  rp_product_name :: "pystr option"
  rp_product_image :: "pystr option"
  rp_category :: "pystr option"
  rp_product_type :: "pystr option"
  rp_keywords :: "pystr list"
  rp_unit :: "pystr option"
  rp_last_updated :: pystr

text \<open>
  The files of the run. Input and output files hold parsed JSON; \<open>None\<close> is a file
  that does not exist. The cache file is in one of four states:
  \<^item> \<open>Absent\<close>: \<open>stat\<close> fails with ENOENT, ENOTDIR, EBADF or ELOOP;
  \<^item> \<open>Inaccessible\<close>: \<open>stat\<close> fails with any other error, such as EACCES when a
    directory on the way to the file may not be searched;
  \<^item> \<open>Unreadable\<close>: the file exists, and opening, reading or parsing it raises;
  \<^item> \<open>Content\<close>: the file exists and parses to a dictionary.
\<close>

datatype cache_file = Absent | Inaccessible | Unreadable | Content geocode_cache

text \<open>
  \<open>GEOCODE_CACHE_FILE.exists()\<close>. \<open>Path.exists\<close> of \<open>pathlib\<close> calls
  \<open>stat\<close>; it returns \<open>False\<close> on the four errors of an absent file and raises
  every other \<open>OSError\<close> again.
\<close>

definition cache_file_exists :: "cache_file \<Rightarrow> error + bool" where
  "cache_file_exists f =
     (case f of
        Absent \<Rightarrow> Inr False
      | Inaccessible \<Rightarrow> Inl OSError
      | Unreadable \<Rightarrow> Inr True
      | Content cache \<Rightarrow> Inr True)"

record world =
  in_stores :: "store list option"
  in_store_prices :: "store_price list option"
  out_products :: "product list option"
  out_stores :: "store list option"
  out_retailer_prices :: "retailer_price list option"
  geocode_cache_file :: cache_file
  cache_file_writable :: bool
  net_log :: request_log

text \<open>
  \<open>load_geocode_cache\<close>: the call of \<open>exists\<close> is outside the \<open>try\<close>, so an
  exception of it leaves the function. The file is read only if it exists, and every
  exception of opening, reading and parsing is caught.
\<close>

definition load_geocode_cache :: "'a world_scheme \<Rightarrow> error + geocode_cache" where
  "load_geocode_cache w =
     (case cache_file_exists (geocode_cache_file w) of
        Inl e \<Rightarrow> Inl e
      | Inr True \<Rightarrow>
          (case geocode_cache_file w of
             Content cache \<Rightarrow> Inr cache
           | _ \<Rightarrow> Inr [])
      | Inr False \<Rightarrow> Inr [])"

text \<open>
  \<open>save_geocode_cache\<close>: the cache replaces the content of the file; an exception
  of the write is caught and only printed.
\<close>

definition save_geocode_cache :: "geocode_cache \<Rightarrow> 'a world_scheme \<Rightarrow> 'a world_scheme" where
  "save_geocode_cache cache w =
     (if cache_file_writable w then w\<lparr>geocode_cache_file := Content cache\<rparr> else w)"

text \<open>\<open>normalize_address\<close>.\<close>

definition normalize_address :: "'a store_scheme \<Rightarrow> pystr" where
  "normalize_address st =
     (let parts = [strip (get_default (st_address st) []),
                   strip (get_default (st_location_text st) [])];
          full_address = join (ascii '', '') (filter (\<lambda>p. p \<noteq> []) parts)
      in join (ascii '' '') (split full_address))"

text \<open>
  \<open>geocode_address\<close>. The request is one call of the service; the printed messages
  are left out.
\<close>

definition geocode_address :: "geocoder \<Rightarrow> pystr \<Rightarrow> pystr \<Rightarrow> error + cache_entry" where
  "geocode_address service address api_key =
     (case service address api_key of
        TransportFailure \<Rightarrow>
          Inr \<lparr>ce_latitude = Some 0, ce_longitude = Some 0,
               ce_status = Some (ascii ''error''), ce_accuracy = None\<rparr>
      | Response data \<Rightarrow>
          if status data \<noteq> Some (ascii ''OK'') \<or> results data = [] then
            Inr \<lparr>ce_latitude = Some 0, ce_longitude = Some 0,
                 ce_status = status data, ce_accuracy = None\<rparr>
          else
            (case geometry (hd (results data)) of
               None \<Rightarrow> Inl KeyError
             | Some g \<Rightarrow>
                 (case location g of
                    None \<Rightarrow> Inl KeyError
                  | Some loc \<Rightarrow>
                      (case lat loc of
                         None \<Rightarrow> Inl KeyError
                       | Some la \<Rightarrow>
                           (case lng loc of
                              None \<Rightarrow> Inl KeyError
                            | Some lo \<Rightarrow>
                                Inr \<lparr>ce_latitude = Some la, ce_longitude = Some lo,
                                     ce_status = Some (ascii ''OK''),
                                     ce_accuracy =
                                       Some (get_default (location_type g) (ascii ''UNKNOWN''))\<rparr>)))))"

text \<open>
  \<open>get_coordinates_for_store\<close>. The cache dictionary is mutated in place and the
  network is used, so the cache and the request log are passed in and returned. The
  credential is \<open>None\<close> or a string; \<open>if api_key\<close> holds of a non-empty string.
  An exception of \<open>geocode_address\<close> leaves the cache as it was, after the request.
\<close>

definition get_coordinates_for_store ::
  "geocoder \<Rightarrow> 'a store_scheme \<Rightarrow> pystr option \<Rightarrow> geocode_cache \<Rightarrow> request_log \<Rightarrow>
     (error + coordinates) \<times> geocode_cache \<times> request_log" where
  "get_coordinates_for_store service st api_key cache reqs =
     (let address = normalize_address st in
      if address = [] then (Inr \<lparr>latitude = 0, longitude = 0\<rparr>, cache, reqs)
      else
        (case map_of cache address of
           Some cached \<Rightarrow>
             (Inr \<lparr>latitude = get_default (ce_latitude cached) 0,
                   longitude = get_default (ce_longitude cached) 0\<rparr>, cache, reqs)
         | None \<Rightarrow>
             (case api_key of
                None \<Rightarrow> (Inr \<lparr>latitude = 0, longitude = 0\<rparr>, cache, reqs)
              | Some k \<Rightarrow>
                  if k = [] then (Inr \<lparr>latitude = 0, longitude = 0\<rparr>, cache, reqs)
                  else
                    (case geocode_address service address k of
                       Inl e \<Rightarrow> (Inl e, cache, reqs @ [(address, k)])
                     | Inr result \<Rightarrow>
                         (Inr \<lparr>latitude = get_default (ce_latitude result) 0,
                               longitude = get_default (ce_longitude result) 0\<rparr>,
                          dict_set cache address result, reqs @ [(address, k)])))))"

text \<open>
  A sequence of lookups on one cache, as a caller that loops over stores makes them: each
  lookup has its own store, credential and service answer; an exception ends the
  sequence.
\<close>

fun lookups ::
  "(geocoder \<times> store \<times> pystr option) list \<Rightarrow> geocode_cache \<Rightarrow> request_log \<Rightarrow>
     (error + coordinates list) \<times> geocode_cache \<times> request_log" where
  "lookups [] cache reqs = (Inr [], cache, reqs)"
| "lookups ((service, st, api_key) # rest) cache reqs =
     (case get_coordinates_for_store service st api_key cache reqs of
        (Inl e, cache', reqs') \<Rightarrow> (Inl e, cache', reqs')
      | (Inr c, cache', reqs') \<Rightarrow>
          (case lookups rest cache' reqs' of
             (Inl e, cache'', reqs'') \<Rightarrow> (Inl e, cache'', reqs'')
           | (Inr cs, cache'', reqs'') \<Rightarrow> (Inr (c # cs), cache'', reqs'')))"

text \<open>
  The body of the loop of \<open>transform_stores\<close> for one store. The counters
  \<open>api_calls\<close> and \<open>cache_hits\<close> and the progress lines only reach the standard
  output and are left out. The credential of the lookup is the constant \<open>None\<close>.
\<close>

definition transform_store ::
  "(pystr \<Rightarrow> pystr) \<Rightarrow> geocoder \<Rightarrow> store \<Rightarrow> geocode_cache \<Rightarrow> request_log \<Rightarrow>
     (error + store) \<times> geocode_cache \<times> request_log" where
  "transform_store lower service st cache reqs =
     (let st1 = st\<lparr>st_geo_point := None\<rparr>;
          store_name = get_default (st_name st1) [];
          retailer_id = extract_retailer_id lower store_name;
          st2 = st1\<lparr>st_retailer_id := Some retailer_id\<rparr>
      in case get_coordinates_for_store service st2 None cache reqs of
           (Inl e, cache', reqs') \<Rightarrow> (Inl e, cache', reqs')
         | (Inr coords, cache', reqs') \<Rightarrow>
             (let st3 = st2\<lparr>st_coordinates :=
                              Some \<lparr>latitude = latitude coords, longitude = longitude coords\<rparr>\<rparr>;
                  st4 = (if st_store_id st3 = None
                         then st3\<lparr>st_store_id :=
                                Some (ascii ''unknown_'' @ lower (get_default (st_name st3) (ascii ''store'')))\<rparr>
                         else st3)
              in (Inr st4, cache', reqs')))"

fun transform_stores_loop ::
  "(pystr \<Rightarrow> pystr) \<Rightarrow> geocoder \<Rightarrow> store list \<Rightarrow> geocode_cache \<Rightarrow> request_log \<Rightarrow>
     (error + store list) \<times> geocode_cache \<times> request_log" where
  "transform_stores_loop lower service [] cache reqs = (Inr [], cache, reqs)"
| "transform_stores_loop lower service (st # rest) cache reqs =
     (case transform_store lower service st cache reqs of
        (Inl e, cache', reqs') \<Rightarrow> (Inl e, cache', reqs')
      | (Inr st', cache', reqs') \<Rightarrow>
          (case transform_stores_loop lower service rest cache' reqs' of
             (Inl e, cache'', reqs'') \<Rightarrow> (Inl e, cache'', reqs'')
           | (Inr rest', cache'', reqs'') \<Rightarrow> (Inr (st' # rest'), cache'', reqs'')))"

text \<open>
  \<open>transform_stores\<close>: the store file must exist; the cache is loaded; the stores
  are transformed; the result is written to the output file. The function has no call
  of \<open>save_geocode_cache\<close>. The result pairs what the function returns or raises with
  the world it leaves.
\<close>

definition transform_stores ::
  "(pystr \<Rightarrow> pystr) \<Rightarrow> geocoder \<Rightarrow> world \<Rightarrow> (error + unit) \<times> world" where
  "transform_stores lower service w =
     (case in_stores w of
        None \<Rightarrow> (Inl FileNotFoundError, w)
      | Some stores \<Rightarrow>
          (case load_geocode_cache w of
             Inl e \<Rightarrow> (Inl e, w)
           | Inr cache \<Rightarrow>
               (case transform_stores_loop lower service stores cache (net_log w) of
                  (Inl e, cache', reqs') \<Rightarrow> (Inl e, w\<lparr>net_log := reqs'\<rparr>)
                | (Inr stores', cache', reqs') \<Rightarrow>
                    (Inr (), w\<lparr>out_stores := Some stores', net_log := reqs'\<rparr>))))"

text \<open>
  The cache dictionary held in memory when \<open>transform_stores\<close> has processed all
  stores: the second value of the loop, which the function drops. There is none when
  the function raises before the loop.
\<close>

definition cache_after_stores ::
  "(pystr \<Rightarrow> pystr) \<Rightarrow> geocoder \<Rightarrow> world \<Rightarrow> geocode_cache option" where
  "cache_after_stores lower service w =
     (case in_stores w of
        None \<Rightarrow> None
      | Some stores \<Rightarrow>
          (case load_geocode_cache w of
             Inl e \<Rightarrow> None
           | Inr cache \<Rightarrow>
               Some (fst (snd (transform_stores_loop lower service stores cache (net_log w))))))"

section \<open>Phase 3: the price aggregator\<close>






section \<open>Concrete inputs\<close>

text \<open>
  Service answers, a store, a cache and worlds on which the theorems below are
  evaluated.
\<close>

definition service_unreachable :: geocoder where
  "service_unreachable address api_key = TransportFailure"

definition service_zero_results :: geocoder where
  "service_zero_results address api_key =
     Response \<lparr>status = Some (ascii ''ZERO_RESULTS''), results = []\<rparr>"

definition sample_store :: store where
  "sample_store =
     \<lparr>st_store_id = Some (ascii ''coop_12''), st_name = Some (ascii ''Coop City''),
      st_address = Some (ascii '' Gare  1 ''), st_location_text = Some (ascii ''Bern''),
      st_geo_point = None, st_retailer_id = None, st_coordinates = None\<rparr>"

definition other_store :: store where
  "other_store =
     \<lparr>st_store_id = None, st_name = Some (ascii ''Denner''),
      st_address = Some (ascii ''Rue 2''), st_location_text = None,
      st_geo_point = None, st_retailer_id = None, st_coordinates = None\<rparr>"

definition sample_cache :: geocode_cache where
  "sample_cache =
     [(ascii ''Gare 1, Bern'',
       \<lparr>ce_latitude = Some 46.9, ce_longitude = Some 7.4, ce_status = Some (ascii ''OK''),
        ce_accuracy = Some (ascii ''ROOFTOP'')\<rparr>)]"

definition empty_world :: world where
  "empty_world =
     \<lparr>in_stores = Some [], in_store_prices = None, out_products = None, out_stores = None,
      out_retailer_prices = None, geocode_cache_file = Absent, cache_file_writable = True,
      net_log = []\<rparr>"

definition inaccessible_world :: world where
  "inaccessible_world =
     \<lparr>in_stores = Some [], in_store_prices = None, out_products = None, out_stores = None,
      out_retailer_prices = None, geocode_cache_file = Inaccessible,
      cache_file_writable = True, net_log = []\<rparr>"

definition sample_world :: world where
  "sample_world =
     \<lparr>in_stores = Some [sample_store], in_store_prices = None, out_products = None,
      out_stores = None, out_retailer_prices = None, geocode_cache_file = Content [],
      cache_file_writable = True, net_log = []\<rparr>"








section \<open>Properties of the retailer classifier\<close>

lemma ascii_Nil: "ascii [] = []"
  by (simp add: ascii_def)

lemma ascii_Cons: "ascii (c # cs) = of_char c # ascii cs"
  by (simp add: ascii_def)

text \<open>
  C4, as amended. On the empty string \<open>extract_retailer_id\<close> returns \<open>unknown\<close>. On
  every other string it returns the first of the patterns migros, coop, denner, aldi,
  aligro that is contained in the lower-cased and trimmed input, and \<open>other\<close> when
  none is.
\<close>

theorem extract_retailer_id_first_match:
  "extract_retailer_id lower store_name =
     (if store_name = [] then ascii ''unknown'' else first_matching_pattern lower store_name)"
  by (simp add: extract_retailer_id_def first_matching_pattern_def retailer_patterns_def Let_def)

theorem extract_retailer_id_first_match_witness:
  "extract_retailer_id ascii_lower (ascii ''ALDI Migros'') = ascii ''migros'' \<and>
   extract_retailer_id ascii_lower (ascii ''Volg'') = ascii ''other''"
  using extract_retailer_id_first_match [of ascii_lower "ascii ''ALDI Migros''"]
    extract_retailer_id_first_match [of ascii_lower "ascii ''Volg''"]
  by (simp add: first_matching_pattern_def retailer_patterns_def ascii_lower_def strip_def
      isspace_def ascii_Nil ascii_Cons sublist_code)

text \<open>
  C4 as stated fails on the empty input: the guard \<open>if not store_name\<close> returns
  \<open>unknown\<close>, not the fallback \<open>other\<close>.
\<close>

theorem extract_retailer_id_empty_counterexample:
  "extract_retailer_id ascii_lower [] \<noteq> ascii ''other''"
  by (simp add: extract_retailer_id_def ascii_def)

section \<open>Properties of the geocode cache and the coordinate lookup\<close>

lemma normalize_address_sample_store:
  "normalize_address sample_store = ascii ''Gare 1, Bern''"
  by (simp add: normalize_address_def sample_store_def get_default_def strip_def split_def
      isspace_def ascii_Nil ascii_Cons)

lemma map_of_dict_set:
  "map_of (dict_set d k v) k' = (if k' = k then Some v else map_of d k')"
  by (induction d k v rule: dict_set.induct) auto

text \<open>
  Where the existence check answers, \<open>load_geocode_cache\<close> returns a dictionary:
  the empty one for an absent file and for a file that cannot be opened, read or
  parsed, the stored one otherwise.
\<close>

lemma load_geocode_cache_degrades:
  "load_geocode_cache (w\<lparr>geocode_cache_file := Absent\<rparr>) = Inr [] \<and>
   load_geocode_cache (w\<lparr>geocode_cache_file := Unreadable\<rparr>) = Inr [] \<and>
   load_geocode_cache (w\<lparr>geocode_cache_file := Content cache\<rparr>) = Inr cache"
  by (simp add: load_geocode_cache_def cache_file_exists_def)

lemma load_geocode_cache_raises_iff:
  "(\<exists>e. load_geocode_cache w = Inl e) \<longleftrightarrow> geocode_cache_file w = Inaccessible"
  by (cases "geocode_cache_file w") (simp_all add: load_geocode_cache_def cache_file_exists_def)

text \<open>
  C9 fails on the code. The \<open>try\<close> of \<open>load_geocode_cache\<close> covers opening,
  reading and parsing, but the call of \<open>exists\<close> before it is not covered. When the
  state of the cache file cannot be determined, \<open>exists\<close> raises, the exception
  leaves \<open>load_geocode_cache\<close>, and the store-transform phase ends with it, having
  written nothing.
\<close>

theorem load_geocode_cache_raises_when_inaccessible:
  "load_geocode_cache inaccessible_world = Inl OSError \<and>
   transform_stores ascii_lower service_unreachable inaccessible_world =
     (Inl OSError, inaccessible_world)"
  by (simp add: load_geocode_cache_def cache_file_exists_def transform_stores_def
      inaccessible_world_def)

text \<open>
  C8, as amended. Without a credential (\<open>None\<close>, or the empty string, which
  \<open>if api_key\<close> rejects as well) the lookup makes no network call and leaves the cache
  as it is. Its result is the zero coordinates when the normalized address is empty or
  not in the cache, and the cached coordinates when the address is in the cache.
\<close>

theorem no_credential_bypasses_service:
  assumes "api_key = None \<or> api_key = Some []"
  shows "get_coordinates_for_store service st api_key cache reqs =
           (Inr (if normalize_address st = [] then \<lparr>latitude = 0, longitude = 0\<rparr>
                 else case map_of cache (normalize_address st) of
                        None \<Rightarrow> \<lparr>latitude = 0, longitude = 0\<rparr>
                      | Some cached \<Rightarrow>
                          \<lparr>latitude = get_default (ce_latitude cached) 0,
                           longitude = get_default (ce_longitude cached) 0\<rparr>),
            cache, reqs)"
  using assms by (auto simp: get_coordinates_for_store_def Let_def split: option.splits)

theorem no_credential_bypasses_service_witness:
  "get_coordinates_for_store service_unreachable sample_store None [] [] =
     (Inr \<lparr>latitude = 0, longitude = 0\<rparr>, [], [])"
  using no_credential_bypasses_service [of None service_unreachable sample_store "[]" "[]"]
  by (simp add: normalize_address_sample_store ascii_Nil ascii_Cons)

text \<open>
  C8 as stated fails when the address is cached: the cache is consulted before the
  credential, and the cached coordinates are returned, not zero.
\<close>

theorem no_credential_cached_counterexample:
  "get_coordinates_for_store service_unreachable sample_store None sample_cache [] \<noteq>
     (Inr \<lparr>latitude = 0, longitude = 0\<rparr>, sample_cache, [])"
  by (simp add: get_coordinates_for_store_def normalize_address_sample_store sample_cache_def
      get_default_def ascii_Nil ascii_Cons)

section \<open>Properties of the store-transform phase\<close>

text \<open>
  With the credential \<open>None\<close> the body of the loop returns without an exception,
  with the cache and the request log it was given.
\<close>

lemma transform_store_offline:
  "\<exists>st'. transform_store lower service st cache reqs = (Inr st', cache, reqs) \<and>
     (map_of cache (normalize_address st) = None \<longrightarrow>
        st_coordinates st' = Some \<lparr>latitude = 0, longitude = 0\<rparr>)"
  by (auto simp: transform_store_def get_coordinates_for_store_def Let_def normalize_address_def
      split: option.splits)

lemma transform_stores_loop_offline:
  "\<exists>out. transform_stores_loop lower service stores cache reqs = (Inr out, cache, reqs) \<and>
     length out = length stores \<and>
     (\<forall>i < length stores. map_of cache (normalize_address (stores ! i)) = None \<longrightarrow>
        st_coordinates (out ! i) = Some \<lparr>latitude = 0, longitude = 0\<rparr>)"
proof (induction stores)
  case Nil
  show ?case by simp
next
  case (Cons st rest)
  obtain st' where st': "transform_store lower service st cache reqs = (Inr st', cache, reqs)"
    and z: "map_of cache (normalize_address st) = None \<longrightarrow>
        st_coordinates st' = Some \<lparr>latitude = 0, longitude = 0\<rparr>"
    using transform_store_offline by blast
  from Cons.IH obtain out where out: "transform_stores_loop lower service rest cache reqs = (Inr out, cache, reqs)"
    and len: "length out = length rest"
    and zs: "\<forall>i < length rest. map_of cache (normalize_address (rest ! i)) = None \<longrightarrow>
        st_coordinates (out ! i) = Some \<lparr>latitude = 0, longitude = 0\<rparr>"
    by blast
  have "transform_stores_loop lower service (st # rest) cache reqs = (Inr (st' # out), cache, reqs)"
    by (simp add: st' out)
  moreover have "length (st' # out) = length (st # rest)" by (simp add: len)
  moreover have "\<forall>i < length (st # rest). map_of cache (normalize_address ((st # rest) ! i)) = None \<longrightarrow>
        st_coordinates ((st' # out) ! i) = Some \<lparr>latitude = 0, longitude = 0\<rparr>"
    using z zs by (auto simp: nth_Cons split: nat.splits)
  ultimately show ?case by blast
qed

text \<open>
  C3. \<open>transform_stores\<close> passes the credential \<open>None\<close> to every lookup. So, for
  every store list, cache file and service, the phase issues no network request: the
  request log is as before. When the store file exists and the cache is loaded, the
  cache dictionary in memory after the loop is the loaded one, and the phase returns
  normally with one output store per input store, where every store whose normalized
  address is not in the loaded cache has the coordinates 0.0 and 0.0.
\<close>

theorem transform_stores_makes_no_request:
  "net_log (snd (transform_stores lower service w)) = net_log w \<and>
   (in_stores w = Some stores \<and> load_geocode_cache w = Inr cache \<longrightarrow>
      cache_after_stores lower service w = Some cache \<and>
      (\<exists>out. transform_stores lower service w = (Inr (), w\<lparr>out_stores := Some out\<rparr>) \<and>
         length out = length stores \<and>
         (\<forall>i < length stores.
            map_of cache (normalize_address (stores ! i)) = None \<longrightarrow>
            st_coordinates (out ! i) = Some \<lparr>latitude = 0, longitude = 0\<rparr>)))"
proof (intro conjI impI)
  show "net_log (snd (transform_stores lower service w)) = net_log w"
  proof (cases "in_stores w")
    case None
    then show ?thesis by (simp add: transform_stores_def)
  next
    case (Some ss)
    show ?thesis
    proof (cases "load_geocode_cache w")
      case (Inl e)
      with Some show ?thesis by (simp add: transform_stores_def)
    next
      case (Inr c)
      obtain out where "transform_stores_loop lower service ss c (net_log w) =
          (Inr out, c, net_log w)"
        using transform_stores_loop_offline by blast
      with Some Inr show ?thesis by (simp add: transform_stores_def)
    qed
  qed
next
  assume a: "in_stores w = Some stores \<and> load_geocode_cache w = Inr cache"
  obtain out where out:
    "transform_stores_loop lower service stores cache (net_log w) = (Inr out, cache, net_log w)"
    and rest: "length out = length stores"
      "\<forall>i < length stores.
            map_of cache (normalize_address (stores ! i)) = None \<longrightarrow>
            st_coordinates (out ! i) = Some \<lparr>latitude = 0, longitude = 0\<rparr>"
    using transform_stores_loop_offline by blast
  show "cache_after_stores lower service w = Some cache"
    using a out by (simp add: cache_after_stores_def)
  have "transform_stores lower service w = (Inr (), w\<lparr>out_stores := Some out\<rparr>)"
    using a out by (simp add: transform_stores_def)
  with rest show "\<exists>out. transform_stores lower service w = (Inr (), w\<lparr>out_stores := Some out\<rparr>) \<and>
         length out = length stores \<and>
         (\<forall>i < length stores.
            map_of cache (normalize_address (stores ! i)) = None \<longrightarrow>
            st_coordinates (out ! i) = Some \<lparr>latitude = 0, longitude = 0\<rparr>)"
    by blast
qed

theorem transform_stores_makes_no_request_witness:
  "net_log (snd (transform_stores ascii_lower service_zero_results sample_world)) = [] \<and>
   cache_after_stores ascii_lower service_zero_results sample_world = Some [] \<and>
   map st_coordinates
     (get_default (out_stores (snd (transform_stores ascii_lower service_zero_results sample_world))) [])
     = [Some \<lparr>latitude = 0, longitude = 0\<rparr>]"
proof -
  have l: "load_geocode_cache sample_world = Inr []"
    by (simp add: load_geocode_cache_def cache_file_exists_def sample_world_def)
  have i: "in_stores sample_world = Some [sample_store]"
    by (simp add: sample_world_def)
  have n: "net_log sample_world = []"
    by (simp add: sample_world_def)
  from transform_stores_makes_no_request [of ascii_lower service_zero_results sample_world
      "[sample_store]" "[]"]
  show ?thesis
    by (auto simp: l i n get_default_def length_Suc_conv)
qed

text \<open>
  C2, as amended. \<open>transform_stores\<close> reads the cache file at its start and never
  writes it: after every run the file is exactly as it was before. As no lookup of the
  phase adds an entry, a file that was readable still holds the cache dictionary the
  phase has in memory at its end.
\<close>

theorem transform_stores_leaves_cache_file:
  "geocode_cache_file (snd (transform_stores lower service w)) = geocode_cache_file w \<and>
   (geocode_cache_file w = Content cache \<longrightarrow>
      geocode_cache_file (snd (transform_stores lower service w)) = Content cache \<and>
      (in_stores w = Some stores \<longrightarrow> cache_after_stores lower service w = Some cache))"
proof -
  have f: "geocode_cache_file (snd (transform_stores lower service w)) = geocode_cache_file w"
  proof (cases "in_stores w")
    case None
    then show ?thesis by (simp add: transform_stores_def)
  next
    case (Some ss)
    show ?thesis
    proof (cases "load_geocode_cache w")
      case (Inl e)
      with Some show ?thesis by (simp add: transform_stores_def)
    next
      case (Inr c)
      obtain out where "transform_stores_loop lower service ss c (net_log w) =
          (Inr out, c, net_log w)"
        using transform_stores_loop_offline by blast
      with Some Inr show ?thesis by (simp add: transform_stores_def)
    qed
  qed
  have "cache_after_stores lower service w = Some cache"
    if c: "geocode_cache_file w = Content cache" and s: "in_stores w = Some stores"
  proof -
    have l: "load_geocode_cache w = Inr cache"
      using c by (simp add: load_geocode_cache_def cache_file_exists_def)
    obtain out where "transform_stores_loop lower service stores cache (net_log w) =
        (Inr out, cache, net_log w)"
      using transform_stores_loop_offline by blast
    then show ?thesis
      using s l by (simp add: cache_after_stores_def)
  qed
  then show ?thesis
    using f by simp
qed

theorem transform_stores_leaves_cache_file_witness:
  "geocode_cache_file (snd (transform_stores ascii_lower service_zero_results sample_world)) = Content [] \<and>
   cache_after_stores ascii_lower service_zero_results sample_world = Some []"
proof -
  have g: "geocode_cache_file sample_world = Content []"
    by (simp add: sample_world_def)
  have i: "in_stores sample_world = Some [sample_store]"
    by (simp add: sample_world_def)
  from transform_stores_leaves_cache_file [of ascii_lower service_zero_results sample_world "[]"
      "[sample_store]"]
  show ?thesis
    by (simp add: g i)
qed

text \<open>
  C2 as stated fails: the phase has no call of \<open>save_geocode_cache\<close>. When the
  cache file does not exist the phase ends with an empty dictionary in memory and
  still no file.
\<close>

theorem transform_stores_skips_save_counterexample:
  "cache_after_stores ascii_lower service_unreachable empty_world = Some [] \<and>
   geocode_cache_file (snd (transform_stores ascii_lower service_unreachable empty_world)) = Absent \<and>
   geocode_cache_file (snd (transform_stores ascii_lower service_unreachable empty_world)) \<noteq>
     Content []"
  by (simp add: transform_stores_def cache_after_stores_def empty_world_def
      load_geocode_cache_def cache_file_exists_def)

section \<open>Properties of sequences of lookups\<close>

text \<open>
  A lookup writes the cache only under an address that is not in it, so an entry that
  exists survives every lookup, and every sequence of lookups.
\<close>

lemma normalize_address_other_store:
  "normalize_address other_store = ascii ''Rue 2''"
  by (simp add: normalize_address_def other_store_def get_default_def strip_def split_def
      isspace_def ascii_Nil ascii_Cons)

lemma get_coordinates_keeps_entries:
  assumes "map_of cache a = Some v"
  shows "map_of (fst (snd (get_coordinates_for_store service st api_key cache reqs))) a = Some v"
  using assms
  by (auto simp: get_coordinates_for_store_def Let_def map_of_dict_set
      split: option.splits sum.splits)

lemma lookups_keep_entries:
  "map_of cache a = Some v \<Longrightarrow> map_of (fst (snd (lookups seq cache reqs))) a = Some v"
proof (induction seq arbitrary: cache reqs)
  case Nil
  then show ?case by simp
next
  case (Cons x seq)
  obtain service st api_key where x: "x = (service, st, api_key)"
    by (cases x) auto
  obtain r cache' reqs' where g:
    "get_coordinates_for_store service st api_key cache reqs = (r, cache', reqs')"
    by (cases "get_coordinates_for_store service st api_key cache reqs") auto
  have c': "map_of cache' a = Some v"
    using get_coordinates_keeps_entries [OF Cons.prems, of service st api_key reqs] g by simp
  show ?case
  proof (cases r)
    case (Inl e)
    then show ?thesis using x g c' by simp
  next
    case (Inr c)
    obtain r2 cache2 reqs2 where l: "lookups seq cache' reqs' = (r2, cache2, reqs2)"
      by (cases "lookups seq cache' reqs'") auto
    have "map_of cache2 a = Some v"
      using Cons.IH [OF c', of reqs'] l by simp
    then show ?thesis
      using x g Inr l by (cases r2) simp_all
  qed
qed

text \<open>
  C6. The cache is append-only over every sequence of coordinate lookups: an address
  that has an entry in the cache has the same entry after the sequence, whatever the
  stores, credentials and service answers of the lookups are.
\<close>

theorem geocode_cache_append_only:
  assumes "map_of cache address = Some entry"
  shows "map_of (fst (snd (lookups seq cache reqs))) address = Some entry"
  using assms by (rule lookups_keep_entries)

theorem geocode_cache_append_only_witness:
  "map_of (fst (snd (lookups [(service_zero_results, other_store, Some (ascii ''key'')),
                               (service_unreachable, sample_store, Some (ascii ''key''))]
                       sample_cache [])))
     (ascii ''Gare 1, Bern'') =
     Some \<lparr>ce_latitude = Some 46.9, ce_longitude = Some 7.4, ce_status = Some (ascii ''OK''),
           ce_accuracy = Some (ascii ''ROOFTOP'')\<rparr> \<and>
   map fst (fst (snd (lookups [(service_zero_results, other_store, Some (ascii ''key'')),
                               (service_unreachable, sample_store, Some (ascii ''key''))]
                       sample_cache []))) = [ascii ''Gare 1, Bern'', ascii ''Rue 2'']"
proof -
  let ?seq = "[(service_zero_results, other_store, Some (ascii ''key'')),
               (service_unreachable, sample_store, Some (ascii ''key''))]"
  have h: "map_of sample_cache (ascii ''Gare 1, Bern'') =
     Some \<lparr>ce_latitude = Some 46.9, ce_longitude = Some 7.4, ce_status = Some (ascii ''OK''),
           ce_accuracy = Some (ascii ''ROOFTOP'')\<rparr>"
    by (simp add: sample_cache_def)
  have m: "map fst (fst (snd (lookups ?seq sample_cache []))) =
             [ascii ''Gare 1, Bern'', ascii ''Rue 2'']"
    by (simp add: get_coordinates_for_store_def normalize_address_other_store
        normalize_address_sample_store geocode_address_def service_zero_results_def
        sample_cache_def get_default_def ascii_Nil ascii_Cons Let_def)
  show ?thesis
    using geocode_cache_append_only [OF h, of ?seq "[]"] m by blast
qed

text \<open>
  C5. A lookup with a non-empty credential for an address that is not empty and not in
  the cache issues one request. When the service answers it with a status other than
  \<open>OK\<close> or with no results, the lookup returns the zero coordinates and stores the
  sentinel entry (latitude 0.0, longitude 0.0, the reported status) in the cache under
  the normalized address. Every later lookup for that address, after any sequence of
  other lookups and with any credential and service, returns the zero coordinates and
  leaves the cache and the request log as they are: it issues no request.
\<close>

theorem failed_geocode_is_cached:
  assumes "api_key \<noteq> []" and "normalize_address st = address" and "address \<noteq> []"
    and "map_of cache address = None"
    and "service address api_key = Response data"
    and "status data \<noteq> Some (ascii ''OK'') \<or> results data = []"
    and "sentinel = \<lparr>ce_latitude = Some 0, ce_longitude = Some 0, ce_status = status data,
                     ce_accuracy = None\<rparr>"
  shows "get_coordinates_for_store service st (Some api_key) cache reqs =
           (Inr \<lparr>latitude = 0, longitude = 0\<rparr>, dict_set cache address sentinel,
            reqs @ [(address, api_key)]) \<and>
         map_of (dict_set cache address sentinel) address = Some sentinel \<and>
         (\<forall>seq service' st' api_key'.
            normalize_address st' = address \<longrightarrow>
            get_coordinates_for_store service' st' api_key'
              (fst (snd (lookups seq (dict_set cache address sentinel) (reqs @ [(address, api_key)]))))
              (snd (snd (lookups seq (dict_set cache address sentinel) (reqs @ [(address, api_key)])))) =
            (Inr \<lparr>latitude = 0, longitude = 0\<rparr>,
             fst (snd (lookups seq (dict_set cache address sentinel) (reqs @ [(address, api_key)]))),
             snd (snd (lookups seq (dict_set cache address sentinel) (reqs @ [(address, api_key)])))))"
proof (intro conjI allI impI)
  have g: "geocode_address service address api_key = Inr sentinel"
    using assms(5,6,7) by (auto simp: geocode_address_def)
  show "get_coordinates_for_store service st (Some api_key) cache reqs =
           (Inr \<lparr>latitude = 0, longitude = 0\<rparr>, dict_set cache address sentinel,
            reqs @ [(address, api_key)])"
    using assms(1,2,3,4,7) g by (simp add: get_coordinates_for_store_def get_default_def)
  show s: "map_of (dict_set cache address sentinel) address = Some sentinel"
    by (simp add: map_of_dict_set)
  fix seq service' st' api_key'
  assume n: "normalize_address st' = address"
  have "map_of (fst (snd (lookups seq (dict_set cache address sentinel) (reqs @ [(address, api_key)]))))
          address = Some sentinel"
    using s by (rule lookups_keep_entries)
  then show "get_coordinates_for_store service' st' api_key'
              (fst (snd (lookups seq (dict_set cache address sentinel) (reqs @ [(address, api_key)]))))
              (snd (snd (lookups seq (dict_set cache address sentinel) (reqs @ [(address, api_key)])))) =
            (Inr \<lparr>latitude = 0, longitude = 0\<rparr>,
             fst (snd (lookups seq (dict_set cache address sentinel) (reqs @ [(address, api_key)]))),
             snd (snd (lookups seq (dict_set cache address sentinel) (reqs @ [(address, api_key)]))))"
    using n assms(3,7) by (simp add: get_coordinates_for_store_def get_default_def)
qed


theorem failed_geocode_is_cached_witness:
  "get_coordinates_for_store service_zero_results sample_store (Some (ascii ''key'')) [] [] =
     (Inr \<lparr>latitude = 0, longitude = 0\<rparr>,
      [(ascii ''Gare 1, Bern'',
        \<lparr>ce_latitude = Some 0, ce_longitude = Some 0,
         ce_status = Some (ascii ''ZERO_RESULTS''), ce_accuracy = None\<rparr>)],
      [(ascii ''Gare 1, Bern'', ascii ''key'')]) \<and>
   get_coordinates_for_store service_unreachable sample_store (Some (ascii ''key''))
     [(ascii ''Gare 1, Bern'',
        \<lparr>ce_latitude = Some 0, ce_longitude = Some 0,
         ce_status = Some (ascii ''ZERO_RESULTS''), ce_accuracy = None\<rparr>)]
     [(ascii ''Gare 1, Bern'', ascii ''key'')] =
     (Inr \<lparr>latitude = 0, longitude = 0\<rparr>,
      [(ascii ''Gare 1, Bern'',
        \<lparr>ce_latitude = Some 0, ce_longitude = Some 0,
         ce_status = Some (ascii ''ZERO_RESULTS''), ce_accuracy = None\<rparr>)],
      [(ascii ''Gare 1, Bern'', ascii ''key'')])"
proof -
  let ?data = "\<lparr>status = Some (ascii ''ZERO_RESULTS''), results = []\<rparr>"
  let ?sentinel = "\<lparr>ce_latitude = Some 0, ce_longitude = Some 0,
         ce_status = Some (ascii ''ZERO_RESULTS''), ce_accuracy = None\<rparr>"
  have a1: "ascii ''key'' \<noteq> []"
    by (simp add: ascii_Cons)
  have a3: "ascii ''Gare 1, Bern'' \<noteq> []"
    by (simp add: ascii_Cons)
  have a4: "map_of ([] :: geocode_cache) (ascii ''Gare 1, Bern'') = None"
    by simp
  have a5: "service_zero_results (ascii ''Gare 1, Bern'') (ascii ''key'') = Response ?data"
    by (simp add: service_zero_results_def)
  have a6: "status ?data \<noteq> Some (ascii ''OK'') \<or> results ?data = []"
    by simp
  have a7: "?sentinel = \<lparr>ce_latitude = Some 0, ce_longitude = Some 0, ce_status = status ?data,
                     ce_accuracy = None\<rparr>"
    by simp
  note t = failed_geocode_is_cached [where api_key = "ascii ''key''" and st = sample_store
      and address = "ascii ''Gare 1, Bern''" and cache = "[]" and service = service_zero_results
      and data = ?data and sentinel = ?sentinel and reqs = "[]",
      OF a1 normalize_address_sample_store a3 a4 a5 a6 a7]
  have first: "get_coordinates_for_store service_zero_results sample_store
      (Some (ascii ''key'')) [] [] =
     (Inr \<lparr>latitude = 0, longitude = 0\<rparr>, [(ascii ''Gare 1, Bern'', ?sentinel)],
      [(ascii ''Gare 1, Bern'', ascii ''key'')])"
    using t [THEN conjunct1] by (simp only: dict_set.simps append_Nil)
  have second: "get_coordinates_for_store service_unreachable sample_store (Some (ascii ''key''))
     [(ascii ''Gare 1, Bern'', ?sentinel)] [(ascii ''Gare 1, Bern'', ascii ''key'')] =
     (Inr \<lparr>latitude = 0, longitude = 0\<rparr>, [(ascii ''Gare 1, Bern'', ?sentinel)],
      [(ascii ''Gare 1, Bern'', ascii ''key'')])"
    using t [THEN conjunct2, THEN conjunct2, rule_format, where st' = sample_store
        and seq = "[]" and service' = service_unreachable and api_key' = "Some (ascii ''key'')",
        OF normalize_address_sample_store]
    by (simp only: dict_set.simps append_Nil lookups.simps fst_conv snd_conv)
  from first second show ?thesis by (rule conjI)
qed

section \<open>Properties of address normalization\<close>

text \<open>
  \<open>split\<close> yields words: non-empty strings without whitespace. Joining words with
  single blanks and splitting again gives the words back, and the joined string has no
  whitespace at either end, so \<open>strip\<close> leaves it alone.
\<close>

lemma isspace_blank: "isspace 0x20"
  by (simp add: isspace_def)

lemma ascii_blank: "ascii '' '' = [0x20]"
  by (simp add: ascii_def)

lemma join_Cons: "join sep (p # ps) = (if ps = [] then p else p @ sep @ join sep ps)"
  by (cases ps) simp_all

lemma split_from_words:
  "\<forall>c \<in> set w. \<not> isspace c \<Longrightarrow>
   \<forall>x \<in> set (split_from w s). x \<noteq> [] \<and> (\<forall>c \<in> set x. \<not> isspace c)"
proof (induction s arbitrary: w)
  case Nil
  then show ?case by simp
next
  case (Cons c cs)
  show ?case
  proof (cases "isspace c")
    case True
    have "\<forall>x \<in> set (split_from [] cs). x \<noteq> [] \<and> (\<forall>c \<in> set x. \<not> isspace c)"
      by (rule Cons.IH) simp
    then show ?thesis
      using True Cons.prems by simp
  next
    case False
    have "\<forall>x \<in> set (split_from (w @ [c]) cs). x \<noteq> [] \<and> (\<forall>c \<in> set x. \<not> isspace c)"
      by (rule Cons.IH) (use False Cons.prems in simp)
    then show ?thesis
      using False by simp
  qed
qed

lemma split_from_nonspace:
  "\<forall>c \<in> set u. \<not> isspace c \<Longrightarrow> split_from w (u @ s) = split_from (w @ u) s"
  by (induction u arbitrary: w) auto

lemma split_join_words:
  assumes "\<forall>x \<in> set ws. x \<noteq> [] \<and> (\<forall>c \<in> set x. \<not> isspace c)"
  shows "split_from [] (join [0x20] ws) = ws"
  using assms
proof (induction ws)
  case Nil
  then show ?case by simp
next
  case (Cons p ps)
  then have p: "p \<noteq> []" "\<forall>c \<in> set p. \<not> isspace c"
    and ih: "split_from [] (join [0x20] ps) = ps"
    by auto
  show ?case
  proof (cases "ps = []")
    case True
    then show ?thesis
      using split_from_nonspace [OF p(2), of "[]" "[]"] p(1) by simp
  next
    case False
    then have "split_from [] (join [0x20] (p # ps)) = split_from p (0x20 # join [0x20] ps)"
      using split_from_nonspace [OF p(2), of "[]" "0x20 # join [0x20] ps"]
      by (simp add: join_Cons)
    also have "\<dots> = p # split_from [] (join [0x20] ps)"
      using p(1) by (simp add: isspace_blank)
    finally show ?thesis by (simp add: ih)
  qed
qed

lemma dropWhile_unchanged:
  "xs \<noteq> [] \<Longrightarrow> \<not> P (hd xs) \<Longrightarrow> dropWhile P xs = xs"
  by (cases xs) auto

lemma strip_trimmed:
  assumes "s = [] \<or> (\<not> isspace (hd s) \<and> \<not> isspace (last s))"
  shows "strip s = s"
proof (cases "s = []")
  case True
  then show ?thesis by (simp add: strip_def)
next
  case False
  with assms have h: "\<not> isspace (hd s)" and l: "\<not> isspace (last s)" by auto
  have d: "dropWhile isspace s = s"
    using False h by (rule dropWhile_unchanged)
  have "rev s \<noteq> []" "\<not> isspace (hd (rev s))"
    using False l by (simp_all add: hd_rev)
  then have r: "dropWhile isspace (rev s) = rev s"
    by (rule dropWhile_unchanged)
  show ?thesis
    unfolding strip_def d r by (rule rev_rev_ident)
qed

lemma join_words_trimmed:
  assumes "\<forall>x \<in> set ws. x \<noteq> [] \<and> (\<forall>c \<in> set x. \<not> isspace c)"
  shows "join [0x20] ws = [] \<or>
         (\<not> isspace (hd (join [0x20] ws)) \<and> \<not> isspace (last (join [0x20] ws)))"
  using assms
proof (induction ws)
  case Nil
  then show ?case by simp
next
  case (Cons p ps)
  from Cons.prems have pne: "p \<noteq> []" and pw: "\<forall>c \<in> set p. \<not> isspace c"
    by simp_all
  have p: "\<not> isspace (hd p)" "\<not> isspace (last p)"
    using pne pw by (simp_all add: hd_in_set last_in_set)
  show ?case
  proof (cases "ps = []")
    case True
    then show ?thesis using p by simp
  next
    case False
    then obtain q qs where ps: "ps = q # qs" by (cases ps) auto
    with Cons.prems have "q \<noteq> []" by simp
    then have ne: "join [0x20] ps \<noteq> []"
      by (simp add: ps join_Cons)
    have "\<forall>x \<in> set ps. x \<noteq> [] \<and> (\<forall>c \<in> set x. \<not> isspace c)"
      using Cons.prems by simp
    then have "\<not> isspace (last (join [0x20] ps))"
      using Cons.IH ne by blast
    then have "\<not> isspace (last (join [0x20] (p # ps)))"
      using False ne by (simp add: join_Cons)
    moreover have "\<not> isspace (hd (join [0x20] (p # ps)))"
      using False pne p(1) by (simp add: join_Cons)
    ultimately show ?thesis by blast
  qed
qed

text \<open>
  C7. Address normalization is idempotent: for every store, the normalized address put
  back as the address of the store, with an empty (or missing) location text, is
  normalized to itself.
\<close>

theorem normalize_address_idempotent:
  "normalize_address (st\<lparr>st_address := Some (normalize_address st),
                         st_location_text := Some []\<rparr>) = normalize_address st \<and>
   normalize_address (st\<lparr>st_address := Some (normalize_address st),
                         st_location_text := None\<rparr>) = normalize_address st"
proof -
  define n where "n = normalize_address st"
  define ws where "ws = split (join (ascii '', '') (filter (\<lambda>p. p \<noteq> [])
     [strip (get_default (st_address st) []), strip (get_default (st_location_text st) [])]))"
  have n: "n = join [0x20] ws"
    by (simp add: n_def ws_def normalize_address_def Let_def ascii_blank)
  have ws: "\<forall>x \<in> set ws. x \<noteq> [] \<and> (\<forall>c \<in> set x. \<not> isspace c)"
    unfolding ws_def split_def by (rule split_from_words) simp
  have s: "strip n = n"
    unfolding n by (rule strip_trimmed) (rule join_words_trimmed [OF ws])
  have e: "strip [] = []"
    by (simp add: strip_def)
  have j: "join [0x20] (split n) = n"
    unfolding n split_def by (simp only: split_join_words [OF ws])
  have j0: "join [0x20] (split []) = []"
    by (simp add: split_def)
  have "normalize_address (st\<lparr>st_address := Some n, st_location_text := Some []\<rparr>) = n"
    by (simp add: normalize_address_def get_default_def s e j j0 ascii_blank)
  moreover have "normalize_address (st\<lparr>st_address := Some n, st_location_text := None\<rparr>) = n"
    by (simp add: normalize_address_def get_default_def s e j j0 ascii_blank)
  ultimately show ?thesis
    unfolding n_def by (rule conjI)
qed

theorem normalize_address_idempotent_witness:
  "normalize_address (sample_store\<lparr>st_address := Some (ascii ''Gare 1, Bern''),
                                   st_location_text := Some []\<rparr>) = ascii ''Gare 1, Bern''"
  using normalize_address_idempotent [of sample_store, THEN conjunct1]
  unfolding normalize_address_sample_store .

section \<open>Properties of the text normalizer\<close>















section \<open>Properties of the price aggregator\<close>














end
